theory Spec2Isabelle
  imports Main
begin

section \<open>The news client: data model\<close>

text \<open>
  The program is one React component, \<^verbatim>\<open>NewsApp\<close> (src/app/index.tsx), with the helper
  \<^verbatim>\<open>fetchNews\<close>, and the root layout that creates the query client. Strings are
  modelled as \<^typ>\<open>string\<close>. Page numbers are modelled as \<^typ>\<open>int\<close>: they are the
  numbers reached from \<^verbatim>\<open>initialPageParam: 1\<close> by \<^verbatim>\<open>page + 1\<close>, far below the
  range where a JavaScript number stops being an exact integer.
\<close>

definition API_KEY :: string where
  "API_KEY = ''cd00e60d5e354c99a1d67fb99609d403''"

definition BASE_URL :: string where
  "BASE_URL = ''https://newsapi.org/v2''"


text \<open>\<^verbatim>\<open>type Article\<close>; the nested \<^verbatim>\<open>source.name\<close> is the field \<open>source_name\<close>.\<close>

record Article =
  url :: string
  title :: string
  description :: string
  urlToImage :: string
  publishedAt :: string
  source_name :: string
  author :: string

text \<open>
  \<^verbatim>\<open>type NewsResponse\<close>. The field \<^verbatim>\<open>articles\<close> is filled with
  \<^verbatim>\<open>response.data.articles\<close>, an unchecked value of the HTTP response: \<open>None\<close> is
  JavaScript's \<^verbatim>\<open>undefined\<close> (the body has no such property).
\<close>

record NewsResponse =
  articles :: "Article list option"
  nextPage :: int

text \<open>
  \<^verbatim>\<open>CATEGORY_SOURCES\<close>: the own properties of the object literal. (Property names
  inherited from \<^verbatim>\<open>Object.prototype\<close> are not modelled; none is in \<open>CATEGORIES\<close>.)
\<close>

definition CATEGORY_SOURCES :: "string \<rightharpoonup> string" where
  "CATEGORY_SOURCES = map_of
     [(''politics'', ''bbc-news,the-guardian-uk''),
      (''tech'', ''techcrunch,wired''),
      (''sports'', ''espn,bbc-sport''),
      (''business'', ''bloomberg,financial-times'')]"

section \<open>fetchNews\<close>

text \<open>The argument object of \<^verbatim>\<open>fetchNews\<close>: each property may be absent.\<close>

record FetchArgs =
  arg_category :: "string option"
  arg_searchTerm :: "string option"
  arg_page :: "int option"

text \<open>The \<^verbatim>\<open>params\<close> object; \<^verbatim>\<open>sources\<close> is present only when it was assigned.\<close>

record Params =
  apiKey :: string
  q :: string
  page :: int
  pageSize :: int
  sources :: "string option"

record Request =
  req_url :: string
  req_params :: Params

text \<open>Truthiness of a string-valued property lookup: defined and not the empty string.\<close>

definition truthy :: "string option \<Rightarrow> bool" where
  "truthy v = (case v of None \<Rightarrow> False | Some s \<Rightarrow> s \<noteq> [])"

text \<open>\<^verbatim>\<open>a || b\<close> on strings: \<open>b\<close> when \<open>a\<close> is the empty string.\<close>

definition js_or :: "string \<Rightarrow> string \<Rightarrow> string" where
  "js_or a b = (if a = [] then b else a)"

text \<open>The destructuring defaults \<^verbatim>\<open>category = 'all'\<close>, \<^verbatim>\<open>searchTerm = ''\<close>, \<^verbatim>\<open>page = 1\<close>.\<close>

definition category_of :: "FetchArgs \<Rightarrow> string" where
  "category_of a = (case arg_category a of None \<Rightarrow> ''all'' | Some c \<Rightarrow> c)"

definition searchTerm_of :: "FetchArgs \<Rightarrow> string" where
  "searchTerm_of a = (case arg_searchTerm a of None \<Rightarrow> [] | Some s \<Rightarrow> s)"

definition page_of :: "FetchArgs \<Rightarrow> int" where
  "page_of a = (case arg_page a of None \<Rightarrow> 1 | Some p \<Rightarrow> p)"

text \<open>Lines 63 to 73 of \<^verbatim>\<open>fetchNews\<close>: the request parameters.\<close>

definition fetchNews_params :: "FetchArgs \<Rightarrow> Params" where
  "fetchNews_params a =
     (let params = \<lparr>apiKey = API_KEY, q = js_or (searchTerm_of a) ''news'',
                     page = page_of a, pageSize = 10, sources = None\<rparr>
      in if category_of a \<noteq> ''all'' \<and> truthy (CATEGORY_SOURCES (category_of a))
         then params\<lparr>sources := CATEGORY_SOURCES (category_of a)\<rparr>
         else params)"

text \<open>
  \<^verbatim>\<open>response.data\<close> as \<^verbatim>\<open>fetchNews\<close> reads it: \<open>NoData\<close> is a null or undefined
  body (reading \<^verbatim>\<open>.articles\<close> of it throws a TypeError), \<open>Body v\<close> a body whose
  \<^verbatim>\<open>articles\<close> property is \<open>v\<close>.
\<close>

datatype resp_data = NoData | Body "Article list option"

text \<open>
  \<^verbatim>\<open>axios.get\<close> is the network: a parameter of the model. It rejects with an error
  of its own (type \<open>'e\<close>) or resolves with a response.
\<close>

type_synonym 'e axios = "Request \<Rightarrow> 'e + resp_data"

datatype 'e failure = Rejected 'e | TypeError

text \<open>
  \<^verbatim>\<open>fetchNews\<close>, with the list of requests sent so far passed through: it has no
  \<^verbatim>\<open>try\<close>, so a rejection of \<^verbatim>\<open>axios.get\<close> leaves it as it is.
\<close>

definition fetchNews ::
  "'e axios \<Rightarrow> FetchArgs \<Rightarrow> Request list \<Rightarrow> ('e failure + NewsResponse) \<times> Request list" where
  "fetchNews get a sent =
     (let req = \<lparr>req_url = BASE_URL @ ''/everything'', req_params = fetchNews_params a\<rparr>;
          sent' = sent @ [req]
      in case get req of
           Inl e \<Rightarrow> (Inl (Rejected e), sent')
         | Inr NoData \<Rightarrow> (Inl TypeError, sent')
         | Inr (Body v) \<Rightarrow> (Inr \<lparr>articles = v, nextPage = page_of a + 1\<rparr>, sent'))"

section \<open>The component NewsApp\<close>

text \<open>
  The value \<^verbatim>\<open>data\<close> of an infinite query: the pages fetched so far, in the order in
  which they were fetched, and the page parameters they were fetched with.
\<close>

record InfiniteData =
  pages :: "NewsResponse list"
  pageParams :: "int list"

text \<open>
  The three \<^verbatim>\<open>useState\<close> cells of \<^verbatim>\<open>NewsApp\<close>, and the cache of the query client
  that the root layout creates (\<^verbatim>\<open>new QueryClient()\<close>): one entry for each query key.
\<close>

record NewsApp =
  searchInput :: string
  searchTerm :: string
  activeCategory :: string
  queryCache :: "string list \<rightharpoonup> InfiniteData"

text \<open>\<^verbatim>\<open>queryKey: ['news', activeCategory, searchTerm]\<close>. Two keys are the same key when
  they are equal element by element.\<close>

definition queryKey :: "NewsApp \<Rightarrow> string list" where
  "queryKey st = [''news'', activeCategory st, searchTerm st]"

text \<open>What \<^verbatim>\<open>useInfiniteQuery\<close> hands to the component as \<^verbatim>\<open>data\<close>: the entry of
  the current key, undefined while there is none.\<close>

definition data :: "NewsApp \<Rightarrow> InfiniteData option" where
  "data st = queryCache st (queryKey st)"

text \<open>The state setters and \<^verbatim>\<open>handleSearch\<close>.\<close>

definition setSearchInput :: "string \<Rightarrow> NewsApp \<Rightarrow> NewsApp" where
  "setSearchInput t st = st\<lparr>searchInput := t\<rparr>"

definition setSearchTerm :: "string \<Rightarrow> NewsApp \<Rightarrow> NewsApp" where
  "setSearchTerm t st = st\<lparr>searchTerm := t\<rparr>"

definition setActiveCategory :: "string \<Rightarrow> NewsApp \<Rightarrow> NewsApp" where
  "setActiveCategory c st = st\<lparr>activeCategory := c\<rparr>"

definition handleSearch :: "NewsApp \<Rightarrow> NewsApp" where
  "handleSearch st = setSearchTerm (searchInput st) st"

text \<open>
  \<^verbatim>\<open>queryFn\<close>: the argument object it hands to \<^verbatim>\<open>fetchNews\<close> (the page parameter
  defaults to 1), and the call.
\<close>

definition queryFn_args :: "NewsApp \<Rightarrow> int option \<Rightarrow> FetchArgs" where
  "queryFn_args st pageParam =
     \<lparr>arg_category = Some (activeCategory st), arg_searchTerm = Some (searchTerm st),
      arg_page = Some (case pageParam of None \<Rightarrow> 1 | Some p \<Rightarrow> p)\<rparr>"

definition queryFn ::
  "'e axios \<Rightarrow> NewsApp \<Rightarrow> int option \<Rightarrow> Request list
     \<Rightarrow> ('e failure + NewsResponse) \<times> Request list" where
  "queryFn get st pageParam sent = fetchNews get (queryFn_args st pageParam) sent"

text \<open>\<^verbatim>\<open>a ?? b\<close>: \<open>b\<close> when \<open>a\<close> is null or undefined.\<close>

definition nullish :: "'a option \<Rightarrow> 'a option \<Rightarrow> 'a option" where
  "nullish a b = (case a of None \<Rightarrow> b | Some v \<Rightarrow> Some v)"

text \<open>\<^verbatim>\<open>getNextPageParam: (lastPage) => lastPage.nextPage ?? undefined\<close>.\<close>

definition getNextPageParam :: "NewsResponse \<Rightarrow> int option" where
  "getNextPageParam lastPage = nullish (Some (nextPage lastPage)) None"

text \<open>
  The two things the component takes from the hook \<^verbatim>\<open>useInfiniteQuery\<close> of the
  library @tanstack/react-query beyond \<^verbatim>\<open>data\<close>, by the library's contract:
  \<^verbatim>\<open>hasNextPage\<close> is true when there is a last page and \<^verbatim>\<open>getNextPageParam\<close> of it
  is neither null nor undefined, and \<^verbatim>\<open>fetchNextPage()\<close> calls \<^verbatim>\<open>queryFn\<close> with that
  page parameter.
\<close>

definition hasNextPage :: "InfiniteData option \<Rightarrow> bool" where
  "hasNextPage dat =
     (case dat of None \<Rightarrow> False
      | Some d \<Rightarrow> pages d \<noteq> [] \<and> getNextPageParam (last (pages d)) \<noteq> None)"

definition fetchNextPage :: "NewsApp \<Rightarrow> FetchArgs option" where
  "fetchNextPage st =
     (case data st of None \<Rightarrow> None
      | Some d \<Rightarrow>
          if pages d = [] then None
          else map_option (\<lambda>p. queryFn_args st (Some p)) (getNextPageParam (last (pages d))))"

text \<open>
  \<^verbatim>\<open>onEndReached={() => hasNextPage && fetchNextPage()}\<close>: the fetch that a load-more
  event starts, \<open>None\<close> when it starts none.
\<close>

definition onEndReached :: "NewsApp \<Rightarrow> FetchArgs option" where
  "onEndReached st = (if hasNextPage (data st) then fetchNextPage st else None)"

section \<open>The list shown\<close>

text \<open>
  \<^verbatim>\<open>flatMap((page) => page.articles)\<close> visits the pages from the first to the last
  and appends, for each, the elements of the array the callback returns; a value that
  is not an array is appended as one element, so a page whose \<^verbatim>\<open>articles\<close> is
  undefined contributes one undefined item (\<open>None\<close>).
\<close>

definition page_items :: "NewsResponse \<Rightarrow> Article option list" where
  "page_items p = (case articles p of None \<Rightarrow> [None] | Some xs \<Rightarrow> map Some xs)"

fun flatMap :: "NewsResponse list \<Rightarrow> Article option list \<Rightarrow> Article option list" where
  "flatMap [] acc = acc"
| "flatMap (p # ps) acc = flatMap ps (acc @ page_items p)"

text \<open>\<^verbatim>\<open>allNews = data?.pages.flatMap(...) || []\<close>: empty while \<^verbatim>\<open>data\<close> is undefined.\<close>

definition allNews :: "InfiniteData option \<Rightarrow> Article option list" where
  "allNews dat = (case dat of None \<Rightarrow> [] | Some d \<Rightarrow> flatMap (pages d) [])"

section \<open>The specification's notions\<close>

text \<open>
  These definitions follow the words of the specification, to be compared with the
  code: the trimmed search term of a query identity, and the deduplication of the feed
  by the pair (url, publishedAt) that keeps the first occurrence.
\<close>

definition is_space :: "char \<Rightarrow> bool" where
  "is_space c = (c \<in> set [CHR '' '', CHR 0x09, CHR 0x0A, CHR 0x0B, CHR 0x0C, CHR 0x0D])"

definition spec_trim :: "string \<Rightarrow> string" where
  "spec_trim s = rev (dropWhile is_space (rev (dropWhile is_space s)))"

definition spec_identity_equal :: "NewsApp \<Rightarrow> NewsApp \<Rightarrow> bool" where
  "spec_identity_equal st st' =
     (activeCategory st = activeCategory st'
      \<and> spec_trim (searchTerm st) = spec_trim (searchTerm st'))"

definition article_key :: "Article \<Rightarrow> string \<times> string" where
  "article_key a = (url a, publishedAt a)"

definition item_key :: "Article option \<Rightarrow> (string \<times> string) option" where
  "item_key = map_option article_key"

fun dedup_by :: "('a \<Rightarrow> 'k) \<Rightarrow> 'k list \<Rightarrow> 'a list \<Rightarrow> 'a list" where
  "dedup_by k seen [] = []"
| "dedup_by k seen (x # xs) =
     (if k x \<in> set seen then dedup_by k seen xs else x # dedup_by k (k x # seen) xs)"

definition spec_dedup :: "Article option list \<Rightarrow> Article option list" where
  "spec_dedup items = dedup_by item_key [] items"

section \<open>Fetches in flight\<close>

text \<open>
  A fetch is started by \<^verbatim>\<open>useInfiniteQuery\<close> for the options of one render: its key
  is \<^verbatim>\<open>queryKey\<close> and its arguments are those of \<^verbatim>\<open>queryFn\<close>, both reading the
  same \<^verbatim>\<open>activeCategory\<close> and \<^verbatim>\<open>searchTerm\<close>.
\<close>

definition started :: "NewsApp \<Rightarrow> int option \<Rightarrow> string list \<times> FetchArgs" where
  "started st pageParam = (queryKey st, queryFn_args st pageParam)"

text \<open>
  By the library's contract each query key has a query of its own, which owns the
  fetches started for it: when a fetch started for the key \<open>k\<close> with page parameter
  \<open>p\<close> resolves with the page \<open>r\<close>, the page is appended to the cache entry of \<open>k\<close>,
  whatever the key of the component is by then. The state cells of the component are
  not touched.
\<close>

definition resolve :: "string list \<Rightarrow> int \<Rightarrow> NewsResponse \<Rightarrow> NewsApp \<Rightarrow> NewsApp" where
  "resolve k p r st =
     st\<lparr>queryCache := (queryCache st)(k \<mapsto>
        (case queryCache st k of
           None \<Rightarrow> \<lparr>pages = [r], pageParams = [p]\<rparr>
         | Some d \<Rightarrow> d\<lparr>pages := pages d @ [r], pageParams := pageParams d @ [p]\<rparr>))\<rparr>"

text \<open>
  What can happen to the component: the user types in the search input, submits the
  search, picks a category, or a fetch in flight resolves.
\<close>

datatype event =
  Typed string
| Submitted
| Picked string
| Resolved "string list" int NewsResponse

fun step :: "event \<Rightarrow> NewsApp \<Rightarrow> NewsApp" where
  "step (Typed t) st = setSearchInput t st"
| "step Submitted st = handleSearch st"
| "step (Picked c) st = setActiveCategory c st"
| "step (Resolved k p r) st = resolve k p r st"

definition run :: "event list \<Rightarrow> NewsApp \<Rightarrow> NewsApp" where
  "run evs st = fold step evs st"

text \<open>The pages that resolved for the key \<open>k\<close> in a run, in the order they resolved.\<close>

fun resolved_for :: "string list \<Rightarrow> event list \<Rightarrow> NewsResponse list" where
  "resolved_for k [] = []"
| "resolved_for k (Resolved k' p r # evs) =
     (if k' = k then r # resolved_for k evs else resolved_for k evs)"
| "resolved_for k (ev # evs) = resolved_for k evs"

definition pages_of :: "InfiniteData option \<Rightarrow> NewsResponse list" where
  "pages_of dat = (case dat of None \<Rightarrow> [] | Some d \<Rightarrow> pages d)"

section \<open>Example data\<close>

definition article1 :: Article where
  "article1 = \<lparr>url = ''https://example.org/a'', title = ''A'', description = [],
     urlToImage = [], publishedAt = ''2024-01-01T00:00:00Z'', source_name = ''Wired'',
     author = []\<rparr>"

definition short_page :: NewsResponse where
  "short_page = \<lparr>articles = Some [article1], nextPage = 2\<rparr>"

definition fresh_app :: NewsApp where
  "fresh_app = \<lparr>searchInput = [], searchTerm = [], activeCategory = ''all'',
     queryCache = Map.empty\<rparr>"

definition one_page_app :: NewsApp where
  "one_page_app = fresh_app\<lparr>queryCache :=
     [[''news'', ''all'', []] \<mapsto> \<lparr>pages = [short_page], pageParams = [1]\<rparr>]\<rparr>"

definition serve_short :: "unit axios" where
  "serve_short req = Inr (Body (Some [article1]))"

definition serve_malformed :: "unit axios" where
  "serve_malformed req = Inr (Body None)"


definition empty_page :: NewsResponse where
  "empty_page = \<lparr>articles = Some [], nextPage = 2\<rparr>"

definition tech_app :: NewsApp where
  "tech_app = setActiveCategory ''tech'' fresh_app"

definition sports_app :: NewsApp where
  "sports_app = setActiveCategory ''sports'' tech_app"

definition race :: "event list" where
  "race = [Picked ''tech'', Picked ''sports'',
           Resolved (fst (started sports_app None)) 1 empty_page,
           Resolved (fst (started tech_app None)) 1 short_page]"

definition no_args :: FetchArgs where
  "no_args = \<lparr>arg_category = None, arg_searchTerm = None, arg_page = None\<rparr>"

section \<open>Request parameters\<close>

lemma CATEGORY_SOURCES_all: "CATEGORY_SOURCES ''all'' = None"
  by (simp add: CATEGORY_SOURCES_def)



lemma fetchNews_sent:
  "snd (fetchNews get a sent) =
     sent @ [\<lparr>req_url = BASE_URL @ ''/everything'', req_params = fetchNews_params a\<rparr>]"
  by (simp add: fetchNews_def Let_def split: sum.split resp_data.split)

text \<open>
  Claim C7. The free-text parameter \<open>q\<close> of every request is the literal \<open>news\<close> when
  the search term is empty and the search term itself otherwise; \<open>pageSize\<close> is
  always 10. This holds of the parameters built, of the request that is sent, and of the
  fetches of the component, whose search term is the submitted \<open>searchTerm\<close>.
\<close>

theorem fetchNews_query_term:
  "q (fetchNews_params a) = (if searchTerm_of a = [] then ''news'' else searchTerm_of a)
   \<and> pageSize (fetchNews_params a) = 10
   \<and> map (q \<circ> req_params) (snd (fetchNews get a [])) =
       [if searchTerm_of a = [] then ''news'' else searchTerm_of a]
   \<and> map (pageSize \<circ> req_params) (snd (fetchNews get a [])) = [10]
   \<and> q (fetchNews_params (queryFn_args st pageParam)) =
       (if searchTerm st = [] then ''news'' else searchTerm st)"
  by (simp add: fetchNews_params_def fetchNews_sent js_or_def Let_def queryFn_args_def
      searchTerm_of_def)



section \<open>Failures of a fetch\<close>

text \<open>
  Claim C8, as the code has it. Every call of \<open>fetchNews\<close> sends exactly one request,
  whether it succeeds or fails, and nothing is retried. A rejection of the HTTP call is
  handed to the caller as it is, with no classification by \<open>fetchNews\<close>; a null body
  fails with a TypeError; any other body is a success, also one with no \<open>articles\<close>
  array, which becomes a page whose \<open>articles\<close> is undefined.
\<close>

theorem fetchNews_one_request:
  "length (snd (fetchNews get a sent)) = Suc (length sent)
   \<and> snd (fetchNews get a sent) =
       sent @ [\<lparr>req_url = BASE_URL @ ''/everything'', req_params = fetchNews_params a\<rparr>]
   \<and> fst (fetchNews get a sent) =
       (case get \<lparr>req_url = BASE_URL @ ''/everything'', req_params = fetchNews_params a\<rparr> of
          Inl e \<Rightarrow> Inl (Rejected e)
        | Inr NoData \<Rightarrow> Inl TypeError
        | Inr (Body v) \<Rightarrow> Inr \<lparr>articles = v, nextPage = page_of a + 1\<rparr>)"
  by (simp add: fetchNews_def Let_def split: sum.split resp_data.split)

text \<open>
  The claim as stated fails: a response whose body has no \<open>articles\<close> array is not
  reported as a malformed response, the call succeeds.
\<close>

theorem fetchNews_malformed_counterexample:
  "fst (fetchNews serve_malformed (queryFn_args fresh_app None) []) =
     Inr \<lparr>articles = None, nextPage = 2\<rparr>"
  by (simp add: fetchNews_def Let_def serve_malformed_def queryFn_args_def page_of_def)

section \<open>The next page\<close>

lemma getNextPageParam_Some: "getNextPageParam r = Some (nextPage r)"
  by (simp add: getNextPageParam_def nullish_def)

lemma fetchNews_Inr:
  assumes "fst (fetchNews get a sent) = Inr r"
  shows "nextPage r = page_of a + 1"
  using assms by (auto simp: fetchNews_def Let_def split: sum.splits resp_data.splits)

text \<open>
  Claim C9. A successful call of \<open>fetchNews\<close> with the page number \<open>p\<close> (1 when the
  call gives none) sends a request for page \<open>p\<close> and returns \<open>nextPage = p + 1\<close>,
  whatever the response held, so \<open>getNextPageParam\<close> of that page is \<open>p + 1\<close>, never
  undefined, and a feed whose last page it is has a next page. The page number is
  taken in the range where a JavaScript number is an exact integer and \<open>page + 1\<close> is
  the integer sum.
\<close>

theorem fetchNews_nextPage:
  assumes "arg_page a = Some p \<or> arg_page a = None \<and> p = 1"
    and "\<bar>p\<bar> < 2 ^ 53"
    and "fst (fetchNews get a sent) = Inr r"
  shows "nextPage r = p + 1
       \<and> getNextPageParam r = Some (p + 1)
       \<and> hasNextPage (Some (d\<lparr>pages := pages d @ [r]\<rparr>))
       \<and> snd (fetchNews get a sent) \<noteq> []
       \<and> page (req_params (last (snd (fetchNews get a sent)))) = p"
proof -
  from assms(1) have p: "page_of a = p"
    by (auto simp: page_of_def)
  from fetchNews_Inr [OF assms(3)] p have n: "nextPage r = p + 1"
    by simp
  have s: "snd (fetchNews get a sent) \<noteq> []
      \<and> page (req_params (last (snd (fetchNews get a sent)))) = p"
    using p by (simp add: fetchNews_sent fetchNews_params_def Let_def)
  from n s show ?thesis
    by (simp add: getNextPageParam_Some hasNextPage_def)
qed

theorem fetchNews_nextPage_witness:
  "arg_page (queryFn_args fresh_app (Some 7)) = Some 7
   \<and> fst (fetchNews serve_short (queryFn_args fresh_app (Some 7)) []) =
       Inr \<lparr>articles = Some [article1], nextPage = 8\<rparr>
   \<and> getNextPageParam \<lparr>articles = Some [article1], nextPage = 8\<rparr> = Some 8
   \<and> hasNextPage (Some \<lparr>pages = [short_page, \<lparr>articles = Some [article1], nextPage = 8\<rparr>],
                         pageParams = [1]\<rparr>)
   \<and> page (req_params (last (snd (fetchNews serve_short
         (queryFn_args fresh_app (Some 7)) [])))) = 7
   \<and> arg_page no_args = None
   \<and> fst (fetchNews serve_short no_args []) = Inr short_page
   \<and> nextPage short_page = 2
   \<and> getNextPageParam short_page = Some 2
   \<and> page (req_params (last (snd (fetchNews serve_short no_args [])))) = 1"
proof -
  have a7: "arg_page (queryFn_args fresh_app (Some 7)) = Some 7
      \<or> arg_page (queryFn_args fresh_app (Some 7)) = None \<and> (7::int) = 1"
    by (simp add: queryFn_args_def)
  have b7: "\<bar>7::int\<bar> < 2 ^ 53"
    by simp
  have f7: "fst (fetchNews serve_short (queryFn_args fresh_app (Some 7)) []) =
      Inr \<lparr>articles = Some [article1], nextPage = 8\<rparr>"
    by (simp add: fetchNews_def Let_def serve_short_def queryFn_args_def page_of_def)
  have a1: "arg_page no_args = Some 1 \<or> arg_page no_args = None \<and> (1::int) = 1"
    by (simp add: no_args_def)
  have b1: "\<bar>1::int\<bar> < 2 ^ 53"
    by simp
  have f1: "fst (fetchNews serve_short no_args []) = Inr short_page"
    by (simp add: fetchNews_def Let_def serve_short_def no_args_def page_of_def
        short_page_def)
  have n: "arg_page (queryFn_args fresh_app (Some 7)) = Some 7 \<and> arg_page no_args = None"
    by (simp add: queryFn_args_def no_args_def)
  from fetchNews_nextPage [OF a7 b7 f7, of "\<lparr>pages = [short_page], pageParams = [1]\<rparr>"]
    fetchNews_nextPage [OF a1 b1 f1, of "\<lparr>pages = [], pageParams = []\<rparr>"] f7 f1 n
  show ?thesis by simp
qed

text \<open>
  Claim C1, as the code has it. A fetched page never exhausts the feed, whatever the
  number of its articles: when the last page of the current query came from a
  successful fetch of page \<open>p\<close>, \<open>hasNextPage\<close> is true and a load-more event starts
  the fetch of page \<open>p + 1\<close> for the same category and search term, whose request
  carries that page number.
\<close>

theorem onEndReached_next:
  assumes "data st = Some d" and "pages d \<noteq> []"
    and "fst (fetchNews get (queryFn_args st pageParam) sent) = Inr (last (pages d))"
  shows "hasNextPage (data st)
       \<and> onEndReached st =
           Some (queryFn_args st (Some (page_of (queryFn_args st pageParam) + 1)))
       \<and> map (page \<circ> req_params)
           (snd (fetchNews get
              (queryFn_args st (Some (page_of (queryFn_args st pageParam) + 1))) [])) =
           [page_of (queryFn_args st pageParam) + 1]"
proof -
  have n: "nextPage (last (pages d)) = page_of (queryFn_args st pageParam) + 1"
    using assms(3) by (rule fetchNews_Inr)
  have h: "hasNextPage (data st)"
    using assms(1,2) by (simp add: hasNextPage_def getNextPageParam_Some)
  have e: "onEndReached st =
      Some (queryFn_args st (Some (page_of (queryFn_args st pageParam) + 1)))"
    using assms(1,2) h n
    by (simp add: onEndReached_def fetchNextPage_def getNextPageParam_Some)
  have r: "map (page \<circ> req_params)
      (snd (fetchNews get
         (queryFn_args st (Some (page_of (queryFn_args st pageParam) + 1))) [])) =
      [page_of (queryFn_args st pageParam) + 1]"
    by (simp add: fetchNews_sent fetchNews_params_def Let_def page_of_def queryFn_args_def)
  from h e r show ?thesis by simp
qed

theorem onEndReached_next_witness:
  "data one_page_app = Some \<lparr>pages = [short_page], pageParams = [1]\<rparr>
   \<and> fst (fetchNews serve_short (queryFn_args one_page_app None) []) = Inr short_page
   \<and> hasNextPage (data one_page_app)
   \<and> onEndReached one_page_app = Some (queryFn_args one_page_app (Some 2))"
proof -
  have d: "data one_page_app = Some \<lparr>pages = [short_page], pageParams = [1]\<rparr>"
    by (simp add: data_def queryKey_def one_page_app_def fresh_app_def)
  have ne: "pages \<lparr>pages = [short_page], pageParams = [1]\<rparr> \<noteq> []"
    by simp
  have f: "fst (fetchNews serve_short (queryFn_args one_page_app None) []) =
      Inr (last (pages \<lparr>pages = [short_page], pageParams = [1]\<rparr>))"
    by (simp add: fetchNews_def Let_def serve_short_def queryFn_args_def page_of_def
        short_page_def)
  have p: "page_of (queryFn_args one_page_app None) = 1"
    by (simp add: queryFn_args_def page_of_def)
  from onEndReached_next [OF d ne f] d f p show ?thesis by simp
qed

text \<open>
  The claim as stated fails: the first page of the query (all, empty search term) holds
  one article, fewer than the page size 10, and the load-more event that follows is
  not a no-op: it starts the fetch of page 2.
\<close>

theorem onEndReached_short_page_counterexample:
  "fst (fetchNews serve_short (queryFn_args fresh_app None) []) = Inr short_page
   \<and> articles short_page = Some [article1]
   \<and> length [article1] < 10
   \<and> data one_page_app = Some \<lparr>pages = [short_page], pageParams = [1]\<rparr>
   \<and> hasNextPage (data one_page_app)
   \<and> onEndReached one_page_app =
       Some \<lparr>arg_category = Some ''all'', arg_searchTerm = Some [], arg_page = Some 2\<rparr>"
  by (simp add: fetchNews_def Let_def serve_short_def queryFn_args_def page_of_def
      short_page_def data_def queryKey_def one_page_app_def fresh_app_def
      hasNextPage_def getNextPageParam_def nullish_def onEndReached_def fetchNextPage_def)

section \<open>Query identity\<close>

text \<open>
  Claim C3, as the code has it. Two states of the component have the same query key
  exactly when their categories are equal and their search terms are equal as they
  stand: nothing trims a search term. The key does not depend on the pages fetched so
  far, so a page number is no part of it.
\<close>

theorem queryKey_identity:
  "(queryKey st = queryKey st') =
     (activeCategory st = activeCategory st' \<and> searchTerm st = searchTerm st')
   \<and> queryKey (st\<lparr>queryCache := c\<rparr>) = queryKey st"
  by (simp add: queryKey_def)

text \<open>
  The claim as stated fails: the search terms \<open>a\<close> and \<open>a\<close> after a space are equal
  once trimmed, in the same category, and their query keys differ.
\<close>

theorem queryKey_trim_counterexample:
  "spec_identity_equal (fresh_app\<lparr>searchTerm := ''a''\<rparr>) (fresh_app\<lparr>searchTerm := '' a''\<rparr>)
   \<and> queryKey (fresh_app\<lparr>searchTerm := ''a''\<rparr>) \<noteq> queryKey (fresh_app\<lparr>searchTerm := '' a''\<rparr>)"
  by (simp add: spec_identity_equal_def spec_trim_def is_space_def queryKey_def fresh_app_def)

section \<open>Typing and submitting a search\<close>

lemma fold_setSearchInput:
  "fold setSearchInput ts st =
     st\<lparr>searchInput := (if ts = [] then searchInput st else last ts)\<rparr>"
  by (induction ts arbitrary: st) (simp_all add: setSearchInput_def)

text \<open>
  Claim C10. A change of the text of the search input sets \<open>searchInput\<close> and nothing
  else: the submitted search term, the category, the query key, the cache and the data
  shown stay as they are, also after any number of such changes. \<open>handleSearch\<close>
  copies \<open>searchInput\<close> into \<open>searchTerm\<close>, and only then does the query key change.
\<close>

theorem setSearchInput_frame:
  "searchInput (setSearchInput t st) = t
   \<and> searchTerm (setSearchInput t st) = searchTerm st
   \<and> activeCategory (setSearchInput t st) = activeCategory st
   \<and> queryCache (setSearchInput t st) = queryCache st
   \<and> queryKey (setSearchInput t st) = queryKey st
   \<and> data (setSearchInput t st) = data st
   \<and> searchTerm (fold setSearchInput ts st) = searchTerm st
   \<and> queryKey (fold setSearchInput ts st) = queryKey st
   \<and> data (fold setSearchInput ts st) = data st
   \<and> handleSearch st = st\<lparr>searchTerm := searchInput st\<rparr>
   \<and> searchTerm (handleSearch (setSearchInput t st)) = t
   \<and> queryKey (handleSearch (setSearchInput t st)) = [''news'', activeCategory st, t]"
  by (simp add: fold_setSearchInput setSearchInput_def handleSearch_def setSearchTerm_def
      queryKey_def data_def)

section \<open>The flattened feed\<close>

lemma flatMap_acc: "flatMap ps acc = acc @ concat (map page_items ps)"
  by (induction ps arbitrary: acc) simp_all

lemma allNews_Some: "allNews (Some d) = concat (map page_items (pages d))"
  by (simp add: allNews_def flatMap_acc)

lemma allNews_None: "allNews None = []"
  by (simp add: allNews_def)

lemma count_list_concat:
  "count_list (concat xss) x = sum_list (map (\<lambda>xs. count_list xs x) xss)"
  by (induction xss) simp_all

lemma length_dedup_by: "length (dedup_by k seen xs) \<le> length xs"
  by (induction xs arbitrary: seen) (auto simp: le_SucI)

lemma dedup_by_id:
  "(dedup_by k seen xs = xs) = (distinct (map k xs) \<and> k ` set xs \<inter> set seen = {})"
proof (induction xs arbitrary: seen)
  case Nil
  show ?case by simp
next
  case (Cons x xs)
  show ?case
  proof (cases "k x \<in> set seen")
    case True
    have "length (dedup_by k seen xs) < length (x # xs)"
      using length_dedup_by [of k seen xs] by simp
    then have "dedup_by k seen xs \<noteq> x # xs" by auto
    with True show ?thesis by auto
  next
    case False
    then show ?thesis using Cons.IH [of "k x # seen"] by auto
  qed
qed

text \<open>
  Claim C5. The list shown is the concatenation of the items of the pages of \<open>data\<close>
  in their order there (the order in which they were fetched: page 1, page 2, ...),
  each page's articles in their order in the page. Flattening distributes over
  appending pages, and for pages that all hold an array of articles the list is the
  concatenation of those arrays. While there is no data the list is empty.
\<close>

theorem allNews_concat:
  "allNews (Some d) = concat (map page_items (pages d))
   \<and> allNews (Some (d\<lparr>pages := pages d @ ps\<rparr>)) =
       allNews (Some d) @ allNews (Some (d\<lparr>pages := ps\<rparr>))
   \<and> allNews (Some \<lparr>pages = map (\<lambda>(xs, n). \<lparr>articles = Some xs, nextPage = n\<rparr>) xns,
                     pageParams = ns\<rparr>) = map Some (concat (map fst xns))
   \<and> allNews None = []"
  by (simp add: allNews_Some allNews_None page_items_def map_concat comp_def split_def)

text \<open>
  Claim C4, as the code has it. Nothing is removed from the list shown: every item
  occurs in it as often as it occurs in the pages fetched. So the list is its own
  deduplication by (url, publishedAt) exactly when those keys are pairwise distinct in
  it.
\<close>

theorem allNews_keeps_duplicates:
  "count_list (allNews (Some d)) x =
     sum_list (map (\<lambda>p. count_list (page_items p) x) (pages d))
   \<and> (spec_dedup (allNews dat) = allNews dat) = distinct (map item_key (allNews dat))"
  by (simp add: allNews_Some count_list_concat spec_dedup_def dedup_by_id comp_def)

text \<open>
  The claim as stated fails: when two pages hold the same article, the list shown holds
  it twice, and its deduplication holds it once.
\<close>

theorem allNews_dedup_counterexample:
  "allNews (Some \<lparr>pages = [short_page, short_page], pageParams = [1, 2]\<rparr>) =
     [Some article1, Some article1]
   \<and> spec_dedup [Some article1, Some article1] = [Some article1]
   \<and> allNews (Some \<lparr>pages = [short_page, short_page], pageParams = [1, 2]\<rparr>) \<noteq>
       spec_dedup (allNews (Some \<lparr>pages = [short_page, short_page], pageParams = [1, 2]\<rparr>))"
  by (simp add: allNews_def page_items_def short_page_def spec_dedup_def)

section \<open>Pages of a superseded query\<close>

lemma queryKey_resolve: "queryKey (resolve k p r st) = queryKey st"
  by (simp add: queryKey_def resolve_def)

lemma pages_of_resolve:
  "pages_of (queryCache (resolve k' p r st) k) =
     (if k' = k then pages_of (queryCache st k) @ [r] else pages_of (queryCache st k))"
  by (simp add: resolve_def pages_of_def split: option.split)

lemma pages_of_step:
  "pages_of (queryCache (step ev st) k) = pages_of (queryCache st k) @ resolved_for k [ev]"
  by (cases ev)
    (simp_all add: pages_of_resolve setSearchInput_def handleSearch_def setSearchTerm_def
      setActiveCategory_def)

lemma resolved_for_Cons: "resolved_for k (ev # evs) = resolved_for k [ev] @ resolved_for k evs"
  by (cases ev) simp_all

lemma pages_of_run:
  "pages_of (queryCache (run evs st) k) = pages_of (queryCache st k) @ resolved_for k evs"
proof (induction evs arbitrary: st)
  case Nil
  show ?case by (simp add: run_def)
next
  case (Cons ev evs)
  have "pages_of (queryCache (run (ev # evs) st) k) =
      pages_of (queryCache (run evs (step ev st)) k)"
    by (simp add: run_def)
  also have "\<dots> = pages_of (queryCache (step ev st) k) @ resolved_for k evs"
    by (rule Cons.IH)
  also have "\<dots> = pages_of (queryCache st k) @ resolved_for k [ev] @ resolved_for k evs"
    by (simp add: pages_of_step)
  also have "\<dots> = pages_of (queryCache st k) @ resolved_for k (ev # evs)"
    using resolved_for_Cons [of k ev evs] by simp
  finally show ?case .
qed

lemma data_resolve_other:
  assumes "k \<noteq> queryKey st"
  shows "data (resolve k p r st) = data st"
  using assms by (simp add: data_def queryKey_resolve) (simp add: resolve_def)

lemma queryFn_args_key:
  "(queryKey st = queryKey st') = (\<forall>pageParam. queryFn_args st pageParam = queryFn_args st' pageParam)"
  by (auto simp: queryKey_def queryFn_args_def)

text \<open>
  Claim C2. A fetch carries the key of the query it was started for, and its arguments
  are the category and search term of that key: two states have the same key exactly
  when their fetches agree for every page parameter. A page that resolves for a key
  other than the current one leaves the data of the current query as it is. After any
  run of typing, submitting, picking a category and fetches resolving in any order, the
  pages observed are the pages the final key's entry held at the start followed by the
  pages that resolved for the final key, and no other page.
\<close>

theorem stale_page_dropped:
  "(k \<noteq> queryKey st \<longrightarrow> data (resolve k p r st) = data st)
   \<and> pages_of (data (resolve (queryKey st) p r st)) = pages_of (data st) @ [r]
   \<and> pages_of (data (run evs st)) =
       pages_of (queryCache st (queryKey (run evs st)))
         @ resolved_for (queryKey (run evs st)) evs
   \<and> fst (started st pageParam) = queryKey st
   \<and> arg_category (snd (started st pageParam)) = Some (queryKey st ! 1)
   \<and> arg_searchTerm (snd (started st pageParam)) = Some (queryKey st ! 2)
   \<and> (queryKey st = queryKey st') =
       (\<forall>pageParam. snd (started st pageParam) = snd (started st' pageParam))"
proof -
  have a: "k \<noteq> queryKey st \<longrightarrow> data (resolve k p r st) = data st"
    by (simp add: data_resolve_other)
  have b: "pages_of (data (resolve (queryKey st) p r st)) = pages_of (data st) @ [r]"
    by (simp add: data_def queryKey_resolve pages_of_resolve)
  have c: "pages_of (data (run evs st)) =
      pages_of (queryCache st (queryKey (run evs st)))
        @ resolved_for (queryKey (run evs st)) evs"
    by (simp add: data_def pages_of_run)
  have d: "fst (started st pageParam) = queryKey st
      \<and> arg_category (snd (started st pageParam)) = Some (queryKey st ! 1)
      \<and> arg_searchTerm (snd (started st pageParam)) = Some (queryKey st ! 2)"
    by (simp add: started_def queryKey_def queryFn_args_def)
  have e: "(queryKey st = queryKey st') =
      (\<forall>pageParam. snd (started st pageParam) = snd (started st' pageParam))"
    by (simp add: started_def queryFn_args_key)
  from a b c d e show ?thesis by simp
qed

text \<open>
  The race: the category tech is picked, then sports before the first page of tech has
  come; the page of sports resolves, and the page of tech after it. The data observed
  is the page of sports alone; the page of tech is in the entry of its own key.
\<close>

theorem stale_page_dropped_witness:
  "queryKey (run race fresh_app) = [''news'', ''sports'', []]
   \<and> fst (started tech_app None) \<noteq> queryKey (run race fresh_app)
   \<and> data (run race fresh_app) = Some \<lparr>pages = [empty_page], pageParams = [1]\<rparr>
   \<and> pages_of (data (run race fresh_app)) = [empty_page]
   \<and> data (resolve (fst (started tech_app None)) 1 short_page
        (resolve (fst (started sports_app None)) 1 empty_page sports_app)) =
       data (resolve (fst (started sports_app None)) 1 empty_page sports_app)
   \<and> queryCache (run race fresh_app) [''news'', ''tech'', []] =
       Some \<lparr>pages = [short_page], pageParams = [1]\<rparr>"
proof -
  have k: "queryKey (run race fresh_app) = [''news'', ''sports'', []]"
    by (simp add: run_def race_def queryKey_def resolve_def setActiveCategory_def
        fresh_app_def)
  have kt: "fst (started tech_app None) = [''news'', ''tech'', []]"
    by (simp add: started_def queryKey_def tech_app_def setActiveCategory_def fresh_app_def)
  have ks: "fst (started sports_app None) = [''news'', ''sports'', []]"
    by (simp add: started_def queryKey_def sports_app_def tech_app_def
        setActiveCategory_def fresh_app_def)
  have r: "run race fresh_app =
      resolve [''news'', ''tech'', []] 1 short_page
        (resolve [''news'', ''sports'', []] 1 empty_page sports_app)"
    by (simp add: run_def race_def kt ks) (simp add: sports_app_def tech_app_def)
  have ne: "[''news'', ''tech'', []] \<noteq>
      queryKey (resolve [''news'', ''sports'', []] 1 empty_page sports_app)"
    by (simp add: queryKey_resolve)
      (simp add: queryKey_def sports_app_def tech_app_def setActiveCategory_def fresh_app_def)
  have d: "data (resolve [''news'', ''sports'', []] 1 empty_page sports_app) =
      Some \<lparr>pages = [empty_page], pageParams = [1]\<rparr>"
    by (simp add: data_def queryKey_resolve)
      (simp add: resolve_def queryKey_def sports_app_def tech_app_def setActiveCategory_def
        fresh_app_def)
  have t: "queryCache (run race fresh_app) [''news'', ''tech'', []] =
      Some \<lparr>pages = [short_page], pageParams = [1]\<rparr>"
    by (simp add: r) (simp add: resolve_def sports_app_def tech_app_def
        setActiveCategory_def fresh_app_def)
  from stale_page_dropped [of "[''news'', ''tech'', []]"
      "resolve [''news'', ''sports'', []] 1 empty_page sports_app" 1 short_page]
    ne k kt ks r d t
  show ?thesis by (simp add: pages_of_def)
qed

end
